theory Spec2Isabelle
  imports Complex_Main
begin

section \<open>JavaScript values\<close>

text \<open>
  A thrown value: the handlers only ever read \<open>err?.code\<close> and \<open>err?.message\<close>.
  A missing or non-numeric code is \<open>None\<close>; a missing message is the empty string
  (both are falsy for \<open>err?.message || fallback\<close>).
\<close>

record js_error =
  code :: "int option"
  message :: string

text \<open>
  A Number. \<open>Finite m e\<close> is the binary64 value \<open>m * 2 ^ e\<close>, kept in canonical form
  (\<open>2 ^ 52 \<le> \<bar>m\<bar> < 2 ^ 53\<close> for a normal number, \<open>e = - 1074\<close> for a subnormal one,
  \<open>Finite 0 0\<close> for zero; the sign of zero is not modelled).
\<close>

datatype js_number = Finite int int | PosInfinity | NegInfinity | NaN

datatype js_value = Str string | Num js_number

definition isFinite :: "js_number \<Rightarrow> bool" where
  "isFinite x = (case x of Finite m e \<Rightarrow> True | _ \<Rightarrow> False)"

text \<open>The comparison \<open>x <= 0\<close> of JavaScript (false on NaN).\<close>

definition le_zero :: "js_number \<Rightarrow> bool" where
  "le_zero x = (case x of Finite m e \<Rightarrow> m \<le> 0 | NegInfinity \<Rightarrow> True | _ \<Rightarrow> False)"

definition value_of :: "js_number \<Rightarrow> rat" where
  "value_of x = (case x of
       Finite m e \<Rightarrow> (if 0 \<le> e then of_int m * 2 ^ nat e else of_int m / 2 ^ nat (- e))
     | _ \<Rightarrow> 0)"

subsection \<open>Rounding to binary64 (round to nearest, ties to even)\<close>

fun bitlen :: "nat \<Rightarrow> nat" where
  "bitlen n = (if n = 0 then 0 else Suc (bitlen (n div 2)))"

declare bitlen.simps [simp del]

text \<open>\<open>rdiv n d\<close> is the integer nearest to \<open>n / d\<close>, ties to the even one.\<close>

definition rdiv :: "nat \<Rightarrow> nat \<Rightarrow> nat" where
  "rdiv n d = (let f = n div d; r = n mod d in
     if 2 * r < d then f else if d < 2 * r then f + 1 else if even f then f else f + 1)"

text \<open>
  \<open>binade p q\<close> is the exponent \<open>e\<close> with \<open>2 ^ e \<le> p / q < 2 ^ (e + 1)\<close>, for positive
  \<open>p\<close> and \<open>q\<close>: the difference of the bit lengths is \<open>e\<close> or \<open>e + 1\<close>.
\<close>

definition binade :: "nat \<Rightarrow> nat \<Rightarrow> int" where
  "binade p q = (let e0 = int (bitlen p) - int (bitlen q) in
     if (if 0 \<le> e0 then q * 2 ^ nat e0 \<le> p else q \<le> p * 2 ^ nat (- e0)) then e0 else e0 - 1)"

text \<open>
  The magnitude of the double nearest to \<open>p / q\<close> (\<open>q > 0\<close>), as mantissa and exponent;
  \<open>None\<close> when it overflows to infinity.
\<close>

definition round_magnitude :: "nat \<Rightarrow> nat \<Rightarrow> (nat \<times> int) option" where
  "round_magnitude p q =
     (if p = 0 then Some (0, 0)
      else let ex = max (binade p q) (- 1022) - 52;
               m = (if ex \<le> 0 then rdiv (p * 2 ^ nat (- ex)) q else rdiv p (q * 2 ^ nat ex));
               ex' = (if m = 2 ^ 53 then ex + 1 else ex);
               m' = (if m = 2 ^ 53 then 2 ^ 52 else m)
           in if m' = 0 then Some (0, 0)
              else if 971 < ex' then None
              else Some (m', ex'))"

text \<open>The Number nearest to the fraction \<open>p / q\<close>, for \<open>q > 0\<close>.\<close>

definition double_of_frac :: "int \<Rightarrow> nat \<Rightarrow> js_number" where
  "double_of_frac p q =
     (case round_magnitude (nat \<bar>p\<bar>) q of
        None \<Rightarrow> (if p < 0 then NegInfinity else PosInfinity)
      | Some (m, e) \<Rightarrow> Finite (if p < 0 then - int m else int m) e)"

text \<open>\<open>x * 1e6\<close>: the exact product, rounded.\<close>

definition times_1e6 :: "js_number \<Rightarrow> js_number" where
  "times_1e6 x = (case x of
       Finite m e \<Rightarrow> (if 0 \<le> e then double_of_frac (m * 1000000 * 2 ^ nat e) 1
                      else double_of_frac (m * 1000000) (2 ^ nat (- e)))
     | _ \<Rightarrow> x)"

text \<open>\<open>x / 1e6\<close>: the exact quotient, rounded.\<close>

definition div_1e6 :: "js_number \<Rightarrow> js_number" where
  "div_1e6 x = (case x of
       Finite m e \<Rightarrow> (if 0 \<le> e then double_of_frac (m * 2 ^ nat e) 1000000
                      else double_of_frac m (1000000 * 2 ^ nat (- e)))
     | _ \<Rightarrow> x)"

text \<open>\<open>Math.floor\<close>: the greatest integer below, which is a double again.\<close>

definition Math_floor :: "js_number \<Rightarrow> js_number" where
  "Math_floor x = (case x of
       Finite m e \<Rightarrow> (if 0 \<le> e then x else double_of_frac (m div 2 ^ nat (- e)) 1)
     | _ \<Rightarrow> x)"

text \<open>
  \<open>web3.utils.fromWei(wei, "ether")\<close> writes \<open>wei / 10 ^ 18\<close> as an exact decimal string;
  the string is represented by the fraction it denotes. \<open>parseFloat\<close> reads such a
  string as the nearest Number.
\<close>

definition fromWei :: "nat \<Rightarrow> nat \<times> nat" where
  "fromWei wei = (wei, 10 ^ 18)"

definition parseFloat :: "nat \<times> nat \<Rightarrow> js_number" where
  "parseFloat s = double_of_frac (int (fst s)) (snd s)"

section \<open>Chain registry (src/libs/network.js)\<close>

record native_currency =
  cur_name :: string
  cur_symbol :: string
  cur_decimals :: nat

record chain_descriptor =
  cd_chainId :: string
  cd_chainName :: string
  cd_nativeCurrency :: native_currency
  cd_rpcUrls :: "string list"
  cd_blockExplorerUrls :: "string list"

definition mainnet :: chain_descriptor where
  "mainnet = \<lparr>cd_chainId = ''0x1'', cd_chainName = ''Ethereum Mainnet'',
     cd_nativeCurrency = \<lparr>cur_name = ''Ether'', cur_symbol = ''ETH'', cur_decimals = 18\<rparr>,
     cd_rpcUrls = [''https://rpc.ankr.com/eth''],
     cd_blockExplorerUrls = [''https://etherscan.io'']\<rparr>"

definition sepolia :: chain_descriptor where
  "sepolia = \<lparr>cd_chainId = ''0xaa36a7'', cd_chainName = ''Sepolia Testnet'',
     cd_nativeCurrency = \<lparr>cur_name = ''Sepolia Ether'', cur_symbol = ''ETH'', cur_decimals = 18\<rparr>,
     cd_rpcUrls = [''https://rpc.sepolia.org''],
     cd_blockExplorerUrls = [''https://sepolia.etherscan.io'']\<rparr>"

text \<open>The own properties of the object \<open>CHAIN_PARAMS\<close>, keyed by hexadecimal chain id.\<close>

definition CHAIN_PARAMS :: "string \<rightharpoonup> chain_descriptor" where
  "CHAIN_PARAMS = [''0x1'' \<mapsto> mainnet, ''0xaa36a7'' \<mapsto> sepolia]"

text \<open>
  \<open>CHAIN_PARAMS\<close> is an object literal, so a property read on it also finds the names
  that every object inherits from \<open>Object.prototype\<close>: the methods of ECMAScript
  and the accessors of its Annex B. Each of them reads as a function, or as the prototype
  itself for \<open>__proto__\<close>: a truthy value that has no \<open>chainName\<close>.
\<close>

definition Object_prototype_names :: "string list" where
  "Object_prototype_names =
     [''constructor'', ''hasOwnProperty'', ''isPrototypeOf'', ''propertyIsEnumerable'',
      ''toLocaleString'', ''toString'', ''valueOf'', ''__proto__'',
      ''__defineGetter__'', ''__defineSetter__'', ''__lookupGetter__'', ''__lookupSetter__'']"

datatype property_value = Descriptor chain_descriptor | Inherited string

text \<open>The property read \<open>CHAIN_PARAMS[key]\<close>; \<open>None\<close> is \<open>undefined\<close>.\<close>

definition CHAIN_PARAMS_at :: "string \<Rightarrow> property_value option" where
  "CHAIN_PARAMS_at key = (case CHAIN_PARAMS key of
       Some d \<Rightarrow> Some (Descriptor d)
     | None \<Rightarrow> (if key \<in> set Object_prototype_names then Some (Inherited key) else None))"

text \<open>\<open>CHAIN_PARAMS[hexId]?.chainName || hexId\<close>\<close>

definition getChainName :: "string \<Rightarrow> string" where
  "getChainName hexId = (case CHAIN_PARAMS_at hexId of
       Some (Descriptor d) \<Rightarrow> (if cd_chainName d = '''' then hexId else cd_chainName d)
     | _ \<Rightarrow> hexId)"

section \<open>The world the component runs in\<close>

record transaction =
  tx_from :: string
  tx_to :: string
  tx_value :: string

text \<open>Every call that leaves the page: \<open>provider.request\<close> by method, and the two web3 calls.\<close>

datatype call =
    Eth_requestAccounts
  | Eth_accounts
  | Eth_chainId
  | Wallet_switchEthereumChain string
  | Wallet_addEthereumChain property_value
  | GetBalance string
  | SendTransaction transaction

text \<open>
  The provider (\<open>window.ethereum\<close>) answers each request from the calls made so far, so
  that it may answer the same request differently the second time.
\<close>

record provider =
  eth_requestAccounts :: "call list \<Rightarrow> js_error + string list"
  eth_accounts :: "call list \<Rightarrow> js_error + string list"
  eth_chainId :: "call list \<Rightarrow> js_error + string"
  wallet_switchEthereumChain :: "call list \<Rightarrow> string \<Rightarrow> js_error + unit"
  wallet_addEthereumChain :: "call list \<Rightarrow> property_value \<Rightarrow> js_error + unit"

datatype storage_call = GetItem string | SetItem string string | RemoveItem string

text \<open>
  What the component does not define itself: the provider (absent when no wallet is
  installed), whether a \<open>localStorage\<close> call throws, \<open>Number(...)\<close> on a string, and
  the web3 library.
\<close>

record env =
  ethereum :: "provider option"
  storage_throws :: "(string \<rightharpoonup> string) \<Rightarrow> storage_call \<Rightarrow> js_error option"
  Number :: "string \<Rightarrow> js_number"
  isAddress :: "string \<Rightarrow> bool"
  toWei :: "string \<Rightarrow> js_error + string"
  getBalance :: "call list \<Rightarrow> string \<Rightarrow> js_error + nat"
  sendTransaction :: "call list \<Rightarrow> transaction \<Rightarrow> js_error + string"

text \<open>The \<open>useState\<close> cells of \<open>Web3Wallet\<close>; \<open>web3\<close> is \<open>null\<close> or an instance.\<close>

record wallet_state =
  web3 :: bool
  account :: string
  chainId :: string
  balanceEth :: js_value
  to :: string
  amountEth :: string
  status :: string
  selectedChain :: string

definition initial_state :: wallet_state where
  "initial_state = \<lparr>web3 = False, account = '''', chainId = '''', balanceEth = Str ''0'',
     to = '''', amountEth = '''', status = '''', selectedChain = ''0x1''\<rparr>"

record world =
  ui :: wallet_state
  localStorage :: "string \<rightharpoonup> string"
  console :: "string list"
  calls :: "call list"

text \<open>
  A computation changes the world and returns or throws; what it changed before it threw
  stays changed. Each handler is one atomic transition: it reads the state cells as they
  are when it starts.
\<close>

type_synonym 'a js = "world \<Rightarrow> (js_error + 'a) \<times> world"

definition unit_js :: "'a \<Rightarrow> 'a js" where
  "unit_js x w = (Inr x, w)"

definition throw :: "js_error \<Rightarrow> 'a js" where
  "throw e w = (Inl e, w)"

definition bind_js :: "'a js \<Rightarrow> ('a \<Rightarrow> 'b js) \<Rightarrow> 'b js" where
  "bind_js m f w = (case m w of (Inl e, w') \<Rightarrow> (Inl e, w') | (Inr x, w') \<Rightarrow> f x w')"

definition then_js :: "unit js \<Rightarrow> 'b js \<Rightarrow> 'b js" where
  "then_js m n = bind_js m (\<lambda>_. n)"

definition try_catch :: "'a js \<Rightarrow> (js_error \<Rightarrow> 'a js) \<Rightarrow> 'a js" where
  "try_catch m h w = (case m w of (Inl e, w') \<Rightarrow> h e w' | (Inr x, w') \<Rightarrow> (Inr x, w'))"

definition Error :: "string \<Rightarrow> js_error" where
  "Error msg = \<lparr>code = None, message = msg\<rparr>"

text \<open>\<open>err?.message || fallback\<close>\<close>

definition message_or :: "js_error \<Rightarrow> string \<Rightarrow> string" where
  "message_or err fallback = (if message err = '''' then fallback else message err)"

definition console_error :: "string \<Rightarrow> unit js" where
  "console_error line w = (Inr (), w\<lparr>console := console w @ [line]\<rparr>)"

definition perform :: "call \<Rightarrow> (call list \<Rightarrow> js_error + 'a) \<Rightarrow> 'a js" where
  "perform c answer w = (answer (calls w), w\<lparr>calls := calls w @ [c]\<rparr>)"

section \<open>Session store (src/libs/storage.js)\<close>

definition KEYS_account :: string where
  "KEYS_account = ''connectedAccount''"

definition KEYS_chain :: string where
  "KEYS_chain = ''connectedChain''"

definition setItem :: "env \<Rightarrow> string \<Rightarrow> string \<Rightarrow> unit js" where
  "setItem E k v w = (case storage_throws E (localStorage w) (SetItem k v) of
       Some err \<Rightarrow> (Inl err, w)
     | None \<Rightarrow> (Inr (), w\<lparr>localStorage := (localStorage w)(k \<mapsto> v)\<rparr>))"

definition getItem :: "env \<Rightarrow> string \<Rightarrow> string option js" where
  "getItem E k w = (case storage_throws E (localStorage w) (GetItem k) of
       Some err \<Rightarrow> (Inl err, w)
     | None \<Rightarrow> (Inr (localStorage w k), w))"

definition removeItem :: "env \<Rightarrow> string \<Rightarrow> unit js" where
  "removeItem E k w = (case storage_throws E (localStorage w) (RemoveItem k) of
       Some err \<Rightarrow> (Inl err, w)
     | None \<Rightarrow> (Inr (), w\<lparr>localStorage := (localStorage w)(k := None)\<rparr>))"

definition saveSession :: "env \<Rightarrow> string \<Rightarrow> string \<Rightarrow> unit js" where
  "saveSession E acct cid =
     try_catch
       (then_js (if acct \<noteq> '''' then setItem E KEYS_account acct else unit_js ())
                (if cid \<noteq> '''' then setItem E KEYS_chain cid else unit_js ()))
       (\<lambda>err. console_error ''Failed to save session:'')"

record session =
  savedAccount :: string
  savedChain :: string

text \<open>\<open>localStorage.getItem(k) || ""\<close>\<close>

definition or_empty :: "string option \<Rightarrow> string" where
  "or_empty v = (case v of None \<Rightarrow> '''' | Some s \<Rightarrow> s)"

definition loadSession :: "env \<Rightarrow> session js" where
  "loadSession E =
     try_catch
       (bind_js (getItem E KEYS_account) (\<lambda>a.
        bind_js (getItem E KEYS_chain) (\<lambda>c.
        unit_js \<lparr>savedAccount = or_empty a, savedChain = or_empty c\<rparr>)))
       (\<lambda>err. then_js (console_error ''Failed to load session:'')
                  (unit_js \<lparr>savedAccount = '''', savedChain = ''''\<rparr>))"

definition clearSession :: "env \<Rightarrow> unit js" where
  "clearSession E =
     try_catch
       (then_js (removeItem E KEYS_account) (removeItem E KEYS_chain))
       (\<lambda>err. console_error ''Failed to clear session:'')"

section \<open>Network switch (src/libs/network.js)\<close>

definition request_switch :: "provider \<Rightarrow> string \<Rightarrow> unit js" where
  "request_switch P hexChainId =
     perform (Wallet_switchEthereumChain hexChainId)
       (\<lambda>log. wallet_switchEthereumChain P log hexChainId)"

definition request_add :: "provider \<Rightarrow> property_value \<Rightarrow> unit js" where
  "request_add P v = perform (Wallet_addEthereumChain v) (\<lambda>log. wallet_addEthereumChain P log v)"

definition switchOrAddChain :: "provider \<Rightarrow> string \<Rightarrow> unit js" where
  "switchOrAddChain P hexChainId =
     try_catch (request_switch P hexChainId)
       (\<lambda>err. case CHAIN_PARAMS_at hexChainId of
            Some v \<Rightarrow>
              (if code err = Some 4902
               then then_js (request_add P v) (request_switch P hexChainId)
               else throw err)
          | None \<Rightarrow> throw err)"

section \<open>The wallet component (Web3Wallet)\<close>

definition get_ui :: "wallet_state js" where
  "get_ui w = (Inr (ui w), w)"

definition setWeb3 :: "bool \<Rightarrow> unit js" where
  "setWeb3 v w = (Inr (), w\<lparr>ui := (ui w)\<lparr>web3 := v\<rparr>\<rparr>)"

definition setAccount :: "string \<Rightarrow> unit js" where
  "setAccount v w = (Inr (), w\<lparr>ui := (ui w)\<lparr>account := v\<rparr>\<rparr>)"

definition setChainId :: "string \<Rightarrow> unit js" where
  "setChainId v w = (Inr (), w\<lparr>ui := (ui w)\<lparr>chainId := v\<rparr>\<rparr>)"

definition setBalanceEth :: "js_value \<Rightarrow> unit js" where
  "setBalanceEth v w = (Inr (), w\<lparr>ui := (ui w)\<lparr>balanceEth := v\<rparr>\<rparr>)"

definition setTo :: "string \<Rightarrow> unit js" where
  "setTo v w = (Inr (), w\<lparr>ui := (ui w)\<lparr>to := v\<rparr>\<rparr>)"

definition setAmountEth :: "string \<Rightarrow> unit js" where
  "setAmountEth v w = (Inr (), w\<lparr>ui := (ui w)\<lparr>amountEth := v\<rparr>\<rparr>)"

definition setStatus :: "string \<Rightarrow> unit js" where
  "setStatus v w = (Inr (), w\<lparr>ui := (ui w)\<lparr>status := v\<rparr>\<rparr>)"

definition setSelectedChain :: "string \<Rightarrow> unit js" where
  "setSelectedChain v w = (Inr (), w\<lparr>ui := (ui w)\<lparr>selectedChain := v\<rparr>\<rparr>)"

text \<open>\<open>accs[0] || ""\<close>\<close>

definition first_or_empty :: "string list \<Rightarrow> string" where
  "first_or_empty accs = (case accs of [] \<Rightarrow> '''' | a # _ \<Rightarrow> a)"

definition connect :: "env \<Rightarrow> unit js" where
  "connect E =
     try_catch
       (case ethereum E of
          None \<Rightarrow> throw (Error ''MetaMask not found. Please install it.'')
        | Some P \<Rightarrow>
            bind_js (perform Eth_requestAccounts (eth_requestAccounts P)) (\<lambda>accs.
            bind_js (perform Eth_chainId (eth_chainId P)) (\<lambda>cid.
            then_js (setAccount (first_or_empty accs))
           (then_js (setChainId cid)
           (then_js (setSelectedChain cid)
           (then_js (setWeb3 True)
           (then_js (saveSession E (first_or_empty accs) cid)
                    (setStatus ''Connected''))))))))
       (\<lambda>err. setStatus (message_or err ''Connect failed''))"

definition refreshBalance :: "env \<Rightarrow> unit js" where
  "refreshBalance E =
     bind_js get_ui (\<lambda>s.
       if \<not> web3 s \<or> account s = '''' then unit_js ()
       else try_catch
         (bind_js (perform (GetBalance (account s)) (\<lambda>log. getBalance E log (account s))) (\<lambda>wei.
            setBalanceEth (Num (div_1e6 (Math_floor (times_1e6 (parseFloat (fromWei wei))))))))
         (\<lambda>err. setStatus ''Failed to fetch balance''))"

definition onAccountsChanged :: "env \<Rightarrow> string list \<Rightarrow> unit js" where
  "onAccountsChanged E accs =
     bind_js get_ui (\<lambda>s.
       then_js (setAccount (first_or_empty accs))
         (if first_or_empty accs = ''''
          then then_js (clearSession E)
              (then_js (setStatus ''Disconnected'')
                       (setBalanceEth (Str ''0'')))
          else then_js (saveSession E (first_or_empty accs) (chainId s))
                       (setStatus ''Account changed'')))"

definition onChainChanged :: "env \<Rightarrow> string \<Rightarrow> unit js" where
  "onChainChanged E cid =
     bind_js get_ui (\<lambda>s.
       then_js (setChainId cid)
      (then_js (setSelectedChain cid)
      (then_js (saveSession E (account s) cid)
      (then_js (setStatus ''Network changed'')
               (refreshBalance E)))))"

text \<open>The auto-reconnect effect, with the \<open>then\<close> callback run in the same transition.\<close>

definition autoReconnect :: "env \<Rightarrow> unit js" where
  "autoReconnect E =
     bind_js (loadSession E) (\<lambda>saved.
       case ethereum E of
         None \<Rightarrow> unit_js ()
       | Some P \<Rightarrow>
           if savedAccount saved = '''' then unit_js ()
           else bind_js (perform Eth_accounts (eth_accounts P)) (\<lambda>accounts.
             if savedAccount saved \<in> set accounts
             then then_js (setAccount (savedAccount saved))
                 (then_js (setChainId (savedChain saved))
                 (then_js (setSelectedChain
                             (if savedChain saved = '''' then ''0x1'' else savedChain saved))
                          (setWeb3 True)))
             else clearSession E))"

text \<open>The character U+2026 of the two progress messages, in UTF-8.\<close>

definition ellipsis :: string where
  "ellipsis = [CHR 0xE2, CHR 0x80, CHR 0xA6]"

definition handleChangeNetwork :: "env \<Rightarrow> string \<Rightarrow> unit js" where
  "handleChangeNetwork E hexId =
     (case ethereum E of
        None \<Rightarrow> setStatus ''MetaMask not found''
      | Some P \<Rightarrow>
          try_catch
            (then_js (setStatus (''Switching network'' @ ellipsis))
            (then_js (switchOrAddChain P hexId)
            (then_js (setSelectedChain hexId)
                     (setStatus (''Switched to '' @ getChainName hexId)))))
            (\<lambda>err. setStatus (message_or err ''Failed to switch network'')))"

text \<open>The condition under which \<open>sendEth\<close> rejects the amount.\<close>

definition amount_invalid :: "env \<Rightarrow> string \<Rightarrow> bool" where
  "amount_invalid E amt =
     (amt = '''' \<or> \<not> isFinite (Number E amt) \<or> le_zero (Number E amt))"

definition lift_js :: "js_error + 'a \<Rightarrow> 'a js" where
  "lift_js r w = (r, w)"

definition sendEth :: "env \<Rightarrow> unit js" where
  "sendEth E =
     bind_js get_ui (\<lambda>s.
       if \<not> web3 s \<or> account s = '''' then setStatus ''Connect wallet first''
       else try_catch
         (if \<not> isAddress E (to s) then throw (Error ''Invalid recipient address'')
          else if amount_invalid E (amountEth s) then throw (Error ''Enter a valid amount'')
          else
            then_js (setStatus (''Sending'' @ ellipsis))
              (bind_js (lift_js (toWei E (amountEth s))) (\<lambda>v.
               bind_js (perform
                          (SendTransaction \<lparr>tx_from = account s, tx_to = to s, tx_value = v\<rparr>)
                          (\<lambda>log. sendTransaction E log
                             \<lparr>tx_from = account s, tx_to = to s, tx_value = v\<rparr>)) (\<lambda>hash.
               then_js (setStatus (''Sent! Tx: '' @ (if hash = '''' then ''(pending)'' else hash)))
              (then_js (setTo '''')
              (then_js (setAmountEth '''')
                       (refreshBalance E)))))))
         (\<lambda>err. setStatus (message_or err ''Send failed'')))"

section \<open>The status timer\<close>

text \<open>
  The effect on \<open>[status]\<close>: after a commit in which \<open>status\<close> differs from the previous
  render, the old timeout is cleared and, for a non-empty status, one of 7000 ms is set.
  A commit that leaves \<open>status\<close> as it was does not run the effect. Time is in
  milliseconds; \<open>timer\<close> is the time at which the pending timeout fires.
\<close>

record timed =
  wallet :: wallet_state
  timer :: "nat option"

definition status_effect :: "nat \<Rightarrow> string \<Rightarrow> timed \<Rightarrow> timed" where
  "status_effect now previous T =
     (if status (wallet T) = previous then T
      else T\<lparr>timer := (if status (wallet T) = '''' then None else Some (now + 7000))\<rparr>)"

text \<open>Time passes until \<open>now\<close>: a timeout that is due runs \<open>setStatus("")\<close>.\<close>

definition advance :: "nat \<Rightarrow> timed \<Rightarrow> timed" where
  "advance now T = (case timer T of
       None \<Rightarrow> T
     | Some due \<Rightarrow>
         (if due \<le> now
          then status_effect due (status (wallet T))
                 (T\<lparr>wallet := (wallet T)\<lparr>status := ''''\<rparr>, timer := None\<rparr>)
          else T))"

text \<open>A state update committed at time \<open>now\<close>.\<close>

definition commit_at :: "nat \<Rightarrow> (wallet_state \<Rightarrow> wallet_state) \<Rightarrow> timed \<Rightarrow> timed" where
  "commit_at now f T =
     (let T1 = advance now T
      in status_effect now (status (wallet T1)) (T1\<lparr>wallet := f (wallet T1)\<rparr>))"

definition setStatus_at :: "nat \<Rightarrow> string \<Rightarrow> timed \<Rightarrow> timed" where
  "setStatus_at now msg = commit_at now (\<lambda>s. s\<lparr>status := msg\<rparr>)"

text \<open>Several state updates, each committed at its own time, one after the other.\<close>

fun commits :: "(nat \<times> (wallet_state \<Rightarrow> wallet_state)) list \<Rightarrow> timed \<Rightarrow> timed" where
  "commits [] T = T"
| "commits (c # cs) T = commits cs (commit_at (fst c) (snd c) T)"

section \<open>Sample environments\<close>

text \<open>A wallet with two authorised accounts on Mainnet that grants every request.\<close>

definition granting_provider :: provider where
  "granting_provider = \<lparr>
     eth_requestAccounts = (\<lambda>log. Inr [''0xAB'', ''0xCD'']),
     eth_accounts = (\<lambda>log. Inr [''0xAB'', ''0xCD'']),
     eth_chainId = (\<lambda>log. Inr ''0x1''),
     wallet_switchEthereumChain = (\<lambda>log hexId. Inr ()),
     wallet_addEthereumChain = (\<lambda>log d. Inr ())\<rparr>"

text \<open>
  A page with that wallet and a working \<open>localStorage\<close>; of the library only what the
  examples use: \<open>Number("0.5")\<close>, one well-formed address, one balance.
\<close>

definition sample_env :: env where
  "sample_env = \<lparr>
     ethereum = Some granting_provider,
     storage_throws = (\<lambda>m c. None),
     Number = (\<lambda>s. if s = ''0.5'' then Finite (2 ^ 52) (- 53) else NaN),
     isAddress = (\<lambda>s. s = ''0xCD''),
     toWei = (\<lambda>s. Inr ''500000000000000000''),
     getBalance = (\<lambda>log a. Inr 1234567999999999999),
     sendTransaction = (\<lambda>log tx. Inr ''0xfeed'')\<rparr>"

definition fresh_world :: world where
  "fresh_world = \<lparr>ui = initial_state, localStorage = Map.empty, console = [], calls = []\<rparr>"

definition denied :: js_error where
  "denied = \<lparr>code = Some 4001, message = ''User rejected the request.''\<rparr>"

definition unrecognized :: js_error where
  "unrecognized = \<lparr>code = Some 4902, message = ''Unrecognized chain ID''\<rparr>"

text \<open>The same page when the wallet grants the request with no account in the list.\<close>

definition no_accounts_env :: env where
  "no_accounts_env =
     sample_env\<lparr>ethereum := Some (granting_provider\<lparr>eth_requestAccounts := (\<lambda>log. Inr [])\<rparr>)\<rparr>"

text \<open>A reload with a session stored for an account the wallet still authorises.\<close>

definition returning_world :: world where
  "returning_world =
     fresh_world\<lparr>localStorage := [KEYS_account \<mapsto> ''0xCD'', KEYS_chain \<mapsto> ''0xaa36a7'']\<rparr>"

text \<open>A connected page: account \<open>0xCD\<close> on Mainnet, stored, with a balance shown.\<close>

definition connected_world :: world where
  "connected_world = \<lparr>
     ui = \<lparr>web3 = True, account = ''0xCD'', chainId = ''0x1'',
           balanceEth = Num (Finite 5559995481163911 (- 52)),
           to = '''', amountEth = '''', status = '''', selectedChain = ''0x1''\<rparr>,
     localStorage = [KEYS_account \<mapsto> ''0xCD'', KEYS_chain \<mapsto> ''0x1''],
     console = [], calls = []\<rparr>"

text \<open>A wallet that does not know the chain and whose user declines to add it.\<close>

definition add_rejecting_provider :: provider where
  "add_rejecting_provider = granting_provider\<lparr>
     wallet_switchEthereumChain := (\<lambda>log hexId. Inl unrecognized),
     wallet_addEthereumChain := (\<lambda>log d. Inl denied)\<rparr>"

text \<open>A wallet that does not know the chain until it has been asked to add it.\<close>

definition learning_provider :: provider where
  "learning_provider = granting_provider\<lparr>
     wallet_switchEthereumChain :=
       (\<lambda>log hexId. if log = [] then Inl unrecognized else Inr ())\<rparr>"

text \<open>
  A page that never connected, on which the wallet announced an account and the user typed
  a recipient: the account is set, web3 is not.
\<close>

definition unconnected_world :: world where
  "unconnected_world =
     snd (setTo ''not-an-address'' (snd (onAccountsChanged sample_env [''0xCD''] fresh_world)))"

text \<open>The connected page with the send form filled in.\<close>

definition form_world :: "string \<Rightarrow> string \<Rightarrow> world" where
  "form_world recipient amt =
     connected_world\<lparr>ui := (ui connected_world)\<lparr>to := recipient, amountEth := amt\<rparr>\<rparr>"

text \<open>The component after mounting: no status, no timeout pending.\<close>

definition idle :: timed where
  "idle = \<lparr>wallet = initial_state, timer = None\<rparr>"

section \<open>Properties\<close>

lemmas js_defs = unit_js_def throw_def bind_js_def then_js_def try_catch_def console_error_def
  perform_def get_ui_def lift_js_def

lemmas storage_defs = setItem_def getItem_def removeItem_def saveSession_def loadSession_def
  clearSession_def or_empty_def

lemmas setter_defs = setWeb3_def setAccount_def setChainId_def setBalanceEth_def setTo_def
  setAmountEth_def setStatus_def setSelectedChain_def

lemmas sample_defs = sample_env_def granting_provider_def fresh_world_def initial_state_def
  KEYS_account_def KEYS_chain_def denied_def unrecognized_def Error_def

subsection \<open>Session store\<close>

lemma saveSession_frame:
  "ui (snd (saveSession E acct cid w)) = ui w \<and> calls (snd (saveSession E acct cid w)) = calls w"
  by (auto simp: js_defs storage_defs split: option.splits)

lemma clearSession_frame:
  "ui (snd (clearSession E w)) = ui w \<and> calls (snd (clearSession E w)) = calls w"
  by (auto simp: js_defs storage_defs split: option.splits)

text \<open>
  C9. None of \<open>saveSession\<close>, \<open>clearSession\<close> and \<open>loadSession\<close> ever throws, whatever
  \<open>localStorage\<close> does: each returns normally. When a read of either key throws, or
  neither key is stored, \<open>loadSession\<close> returns the two empty strings. The only trace
  of a failure is at most one line on the console.
\<close>

theorem session_store_never_raises:
  "fst (saveSession E acct cid w) = Inr () \<and>
   fst (clearSession E w) = Inr () \<and>
   (\<exists>r. fst (loadSession E w) = Inr r) \<and>
   (storage_throws E (localStorage w) (GetItem KEYS_account) \<noteq> None \<or>
    storage_throws E (localStorage w) (GetItem KEYS_chain) \<noteq> None \<or>
    (localStorage w KEYS_account = None \<and> localStorage w KEYS_chain = None)
    \<longrightarrow> fst (loadSession E w) = Inr \<lparr>savedAccount = '''', savedChain = ''''\<rparr>) \<and>
   (console (snd (saveSession E acct cid w)) = console w \<or>
    console (snd (saveSession E acct cid w)) = console w @ [''Failed to save session:'']) \<and>
   (console (snd (clearSession E w)) = console w \<or>
    console (snd (clearSession E w)) = console w @ [''Failed to clear session:'']) \<and>
   (console (snd (loadSession E w)) = console w \<or>
    console (snd (loadSession E w)) = console w @ [''Failed to load session:''])"
proof -
  have returns: "fst (saveSession E acct cid w) = Inr () \<and>
     fst (clearSession E w) = Inr () \<and> (\<exists>r. fst (loadSession E w) = Inr r)"
    by (simp add: js_defs storage_defs split: option.splits)
  have empty: "fst (loadSession E w) = Inr \<lparr>savedAccount = '''', savedChain = ''''\<rparr>"
    if "storage_throws E (localStorage w) (GetItem KEYS_account) \<noteq> None \<or>
        storage_throws E (localStorage w) (GetItem KEYS_chain) \<noteq> None \<or>
        (localStorage w KEYS_account = None \<and> localStorage w KEYS_chain = None)"
    using that by (auto simp: js_defs storage_defs split: option.splits)
  have logs: "(console (snd (saveSession E acct cid w)) = console w \<or>
      console (snd (saveSession E acct cid w)) = console w @ [''Failed to save session:'']) \<and>
     (console (snd (clearSession E w)) = console w \<or>
      console (snd (clearSession E w)) = console w @ [''Failed to clear session:'']) \<and>
     (console (snd (loadSession E w)) = console w \<or>
      console (snd (loadSession E w)) = console w @ [''Failed to load session:''])"
    by (simp add: js_defs storage_defs split: option.splits)
  show ?thesis
    using returns empty logs by blast
qed

theorem session_store_never_raises_witness:
  "storage_throws (sample_env\<lparr>storage_throws := (\<lambda>m c. Some denied)\<rparr>)
      (localStorage (fresh_world\<lparr>localStorage := [KEYS_account \<mapsto> ''0xAB'']\<rparr>))
      (GetItem KEYS_account) \<noteq> None \<and>
   fst (saveSession (sample_env\<lparr>storage_throws := (\<lambda>m c. Some denied)\<rparr>) ''0xAB'' ''0x1''
      (fresh_world\<lparr>localStorage := [KEYS_account \<mapsto> ''0xAB'']\<rparr>)) = Inr () \<and>
   fst (loadSession (sample_env\<lparr>storage_throws := (\<lambda>m c. Some denied)\<rparr>)
      (fresh_world\<lparr>localStorage := [KEYS_account \<mapsto> ''0xAB'']\<rparr>))
     = Inr \<lparr>savedAccount = '''', savedChain = ''''\<rparr>"
  using session_store_never_raises
    [of "sample_env\<lparr>storage_throws := (\<lambda>m c. Some denied)\<rparr>" "''0xAB''" "''0x1''"
        "fresh_world\<lparr>localStorage := [KEYS_account \<mapsto> ''0xAB'']\<rparr>"]
  by (simp add: sample_defs)

text \<open>
  C10. \<open>saveSession\<close> leaves the stored account as it is when its account argument is
  empty, the stored chain as it is when its chain argument is empty, and never touches
  another key; a non-empty account is stored when \<open>setItem\<close> does not throw. So a
  chain change that arrives while the current account is empty stores the new chain id
  and keeps whatever account was stored before.
\<close>

theorem saveSession_writes_only_nonempty:
  "(acct = '''' \<longrightarrow>
      localStorage (snd (saveSession E acct cid w)) KEYS_account = localStorage w KEYS_account) \<and>
   (cid = '''' \<longrightarrow>
      localStorage (snd (saveSession E acct cid w)) KEYS_chain = localStorage w KEYS_chain) \<and>
   (k \<noteq> KEYS_account \<and> k \<noteq> KEYS_chain \<longrightarrow>
      localStorage (snd (saveSession E acct cid w)) k = localStorage w k) \<and>
   (acct \<noteq> '''' \<and> storage_throws E (localStorage w) (SetItem KEYS_account acct) = None \<longrightarrow>
      localStorage (snd (saveSession E acct cid w)) KEYS_account = Some acct) \<and>
   (account (ui w) = '''' \<and> cid \<noteq> '''' \<and>
    storage_throws E (localStorage w) (SetItem KEYS_chain cid) = None \<longrightarrow>
      localStorage (snd (onChainChanged E cid w)) = (localStorage w)(KEYS_chain \<mapsto> cid) \<and>
      localStorage (snd (onChainChanged E cid w)) KEYS_account = localStorage w KEYS_account)"
  by (auto simp: js_defs storage_defs setter_defs onChainChanged_def refreshBalance_def
        KEYS_account_def KEYS_chain_def split: option.splits)

theorem saveSession_writes_only_nonempty_witness:
  "account (ui (fresh_world\<lparr>localStorage := [KEYS_account \<mapsto> ''0xAB'']\<rparr>)) = '''' \<and>
   ''0xaa36a7'' \<noteq> '''' \<and>
   storage_throws sample_env
     (localStorage (fresh_world\<lparr>localStorage := [KEYS_account \<mapsto> ''0xAB'']\<rparr>))
     (SetItem KEYS_chain ''0xaa36a7'') = None \<and>
   localStorage (snd (onChainChanged sample_env ''0xaa36a7''
       (fresh_world\<lparr>localStorage := [KEYS_account \<mapsto> ''0xAB'']\<rparr>)))
     = [KEYS_account \<mapsto> ''0xAB'', KEYS_chain \<mapsto> ''0xaa36a7''] \<and>
   localStorage (snd (saveSession sample_env '''' ''0xaa36a7''
       (fresh_world\<lparr>localStorage := [KEYS_account \<mapsto> ''0xAB'']\<rparr>))) KEYS_account
     = Some ''0xAB''"
  using saveSession_writes_only_nonempty
    [of "''''" sample_env "''0xaa36a7''"
        "fresh_world\<lparr>localStorage := [KEYS_account \<mapsto> ''0xAB'']\<rparr>" "''other''"]
  by (simp add: sample_defs)

lemma loadSession_frame:
  "ui (snd (loadSession E w)) = ui w \<and> calls (snd (loadSession E w)) = calls w \<and>
   localStorage (snd (loadSession E w)) = localStorage w"
  by (simp add: js_defs storage_defs split: option.splits)

lemma clearSession_returns: "fst (clearSession E w) = Inr ()"
  by (simp add: js_defs storage_defs split: option.splits)

lemma clearSession_localStorage:
  "localStorage (snd (clearSession E w)) =
     (case storage_throws E (localStorage w) (RemoveItem KEYS_account) of
        Some err \<Rightarrow> localStorage w
      | None \<Rightarrow>
         (case storage_throws E ((localStorage w)(KEYS_account := None)) (RemoveItem KEYS_chain) of
            Some err \<Rightarrow> (localStorage w)(KEYS_account := None)
          | None \<Rightarrow> (localStorage w)(KEYS_account := None, KEYS_chain := None)))"
  by (simp add: js_defs storage_defs split: option.splits)

subsection \<open>Connecting and reconciling\<close>

text \<open>
  C1, as the code has it. When the provider grants the account request and answers the
  chain id request, \<open>connect\<close> returns without an error whatever the list holds: it
  sets the account to the first returned address, or to the empty string when the list
  is empty, sets the chain id and the selected chain, creates web3, hands both values to
  \<open>saveSession\<close> and sets the status "Connected". The account is non-empty exactly when
  the list starts with a non-empty address; then, with a working store and a non-empty
  chain id, both values are stored.
\<close>

theorem connect_granted:
  assumes "ethereum E = Some P"
    and "eth_requestAccounts P (calls w) = Inr accs"
    and "eth_chainId P (calls w @ [Eth_requestAccounts]) = Inr cid"
  shows "fst (connect E w) = Inr () \<and>
    ui (snd (connect E w)) = (ui w)\<lparr>web3 := True, account := first_or_empty accs,
       chainId := cid, selectedChain := cid, status := ''Connected''\<rparr> \<and>
    calls (snd (connect E w)) = calls w @ [Eth_requestAccounts, Eth_chainId] \<and>
    localStorage (snd (connect E w))
      = localStorage (snd (saveSession E (first_or_empty accs) cid w)) \<and>
    (account (ui (snd (connect E w))) \<noteq> '''' \<longleftrightarrow> accs \<noteq> [] \<and> hd accs \<noteq> '''') \<and>
    (accs \<noteq> [] \<and> hd accs \<noteq> '''' \<and> cid \<noteq> '''' \<and> (\<forall>m c. storage_throws E m c = None) \<longrightarrow>
       account (ui (snd (connect E w))) = hd accs \<and>
       localStorage (snd (connect E w))
         = (localStorage w)(KEYS_account \<mapsto> hd accs, KEYS_chain \<mapsto> cid))"
  using assms
  by (auto simp: js_defs storage_defs setter_defs connect_def first_or_empty_def
        split: option.splits list.splits)

theorem connect_granted_witness:
  "ethereum sample_env = Some granting_provider \<and>
   eth_requestAccounts granting_provider (calls fresh_world) = Inr [''0xAB'', ''0xCD''] \<and>
   eth_chainId granting_provider (calls fresh_world @ [Eth_requestAccounts]) = Inr ''0x1'' \<and>
   fst (connect sample_env fresh_world) = Inr () \<and>
   ui (snd (connect sample_env fresh_world)) = initial_state\<lparr>web3 := True, account := ''0xAB'',
       chainId := ''0x1'', selectedChain := ''0x1'', status := ''Connected''\<rparr> \<and>
   localStorage (snd (connect sample_env fresh_world))
     = [KEYS_account \<mapsto> ''0xAB'', KEYS_chain \<mapsto> ''0x1'']"
proof -
  have h1: "ethereum sample_env = Some granting_provider"
    by (simp add: sample_defs)
  have h2: "eth_requestAccounts granting_provider (calls fresh_world) = Inr [''0xAB'', ''0xCD'']"
    by (simp add: sample_defs)
  have h3: "eth_chainId granting_provider (calls fresh_world @ [Eth_requestAccounts]) = Inr ''0x1''"
    by (simp add: sample_defs)
  have h4: "\<forall>m c. storage_throws sample_env m c = None"
    by (simp add: sample_defs)
  show ?thesis
    using connect_granted [OF h1 h2 h3] h1 h2 h3 h4
    by (simp add: js_defs storage_defs first_or_empty_def sample_defs)
qed

text \<open>
  C1 as stated fails: with an empty account list \<open>connect\<close> raises nothing and sets the
  status "Connected" all the same, with an empty account.
\<close>

theorem connect_empty_accounts_counterexample:
  "fst (connect no_accounts_env fresh_world) = Inr () \<and>
   status (ui (snd (connect no_accounts_env fresh_world))) = ''Connected'' \<and>
   account (ui (snd (connect no_accounts_env fresh_world))) = '''' \<and>
   chainId (ui (snd (connect no_accounts_env fresh_world))) = ''0x1''"
  by (simp add: js_defs storage_defs setter_defs connect_def first_or_empty_def
        no_accounts_env_def sample_defs)

text \<open>
  C5. Whatever the state before, \<open>onAccountsChanged\<close> with an empty list returns with
  status "Disconnected", an empty account and the balance "0", and has done to the store
  what \<open>clearSession\<close> does: with a \<open>removeItem\<close> that does not throw, neither key is
  stored afterwards.
\<close>

theorem accounts_changed_empty_disconnects:
  "fst (onAccountsChanged E [] w) = Inr () \<and>
   status (ui (snd (onAccountsChanged E [] w))) = ''Disconnected'' \<and>
   account (ui (snd (onAccountsChanged E [] w))) = '''' \<and>
   balanceEth (ui (snd (onAccountsChanged E [] w))) = Str ''0'' \<and>
   localStorage (snd (onAccountsChanged E [] w)) = localStorage (snd (clearSession E w)) \<and>
   ((\<forall>m k. storage_throws E m (RemoveItem k) = None) \<longrightarrow>
      localStorage (snd (onAccountsChanged E [] w)) KEYS_account = None \<and>
      localStorage (snd (onAccountsChanged E [] w)) KEYS_chain = None)"
  by (auto simp: js_defs storage_defs setter_defs onAccountsChanged_def first_or_empty_def
        split: option.splits)

theorem accounts_changed_empty_disconnects_witness:
  "(\<forall>m k. storage_throws sample_env m (RemoveItem k) = None) \<and>
   account (ui connected_world) = ''0xCD'' \<and>
   localStorage connected_world KEYS_account = Some ''0xCD'' \<and>
   status (ui (snd (onAccountsChanged sample_env [] connected_world))) = ''Disconnected'' \<and>
   account (ui (snd (onAccountsChanged sample_env [] connected_world))) = '''' \<and>
   balanceEth (ui (snd (onAccountsChanged sample_env [] connected_world))) = Str ''0'' \<and>
   localStorage (snd (onAccountsChanged sample_env [] connected_world)) KEYS_account = None \<and>
   localStorage (snd (onAccountsChanged sample_env [] connected_world)) KEYS_chain = None"
proof -
  have h: "\<forall>m k. storage_throws sample_env m (RemoveItem k) = None"
    by (simp add: sample_defs)
  show ?thesis
    using accounts_changed_empty_disconnects [of sample_env connected_world] h
    by (simp add: js_defs storage_defs connected_world_def sample_defs)
qed

lemma autoReconnect_unfold:
  assumes "loadSession E w = (Inr saved, w1)"
  shows "autoReconnect E w =
     (case ethereum E of
        None \<Rightarrow> (Inr (), w1)
      | Some P \<Rightarrow>
          if savedAccount saved = '''' then (Inr (), w1)
          else (case eth_accounts P (calls w1) of
                  Inl err \<Rightarrow> (Inl err, w1\<lparr>calls := calls w1 @ [Eth_accounts]\<rparr>)
                | Inr accounts \<Rightarrow>
                    if savedAccount saved \<in> set accounts
                    then (Inr (), w1\<lparr>calls := calls w1 @ [Eth_accounts],
                            ui := (ui w1)\<lparr>account := savedAccount saved,
                              chainId := savedChain saved,
                              selectedChain :=
                                (if savedChain saved = '''' then ''0x1'' else savedChain saved),
                              web3 := True\<rparr>\<rparr>)
                    else clearSession E (w1\<lparr>calls := calls w1 @ [Eth_accounts]\<rparr>)))"
  using assms
  by (simp add: autoReconnect_def unit_js_def bind_js_def then_js_def perform_def setter_defs
        split: option.splits sum.splits)

text \<open>
  C6. The start-up effect makes no call or the single call \<open>eth_accounts\<close>, so never
  \<open>eth_requestAccounts\<close>. With no stored account (or no provider) it changes neither
  the state, the store nor the call log. With a stored account and an answered
  \<open>eth_accounts\<close>, it adopts the stored account and chain when the account is in the
  answer and leaves the store alone; otherwise it leaves the state as it was and does to
  the store what \<open>clearSession\<close> does (neither key is stored afterwards when
  \<open>removeItem\<close> does not throw).
\<close>

theorem autoReconnect_revalidates:
  assumes "fst (loadSession E w) = Inr saved"
    and "w' = snd (autoReconnect E w)"
  shows "(calls w' = calls w \<or> calls w' = calls w @ [Eth_accounts]) \<and>
    (savedAccount saved = '''' \<or> ethereum E = None \<longrightarrow>
       fst (autoReconnect E w) = Inr () \<and> ui w' = ui w \<and> calls w' = calls w \<and>
       localStorage w' = localStorage w) \<and>
    (ethereum E = Some P \<and> savedAccount saved \<noteq> '''' \<and>
        eth_accounts P (calls w) = Inr accounts \<longrightarrow>
        fst (autoReconnect E w) = Inr () \<and>
        calls w' = calls w @ [Eth_accounts] \<and>
        (if savedAccount saved \<in> set accounts
         then ui w' = (ui w)\<lparr>web3 := True, account := savedAccount saved,
                 chainId := savedChain saved,
                 selectedChain := (if savedChain saved = '''' then ''0x1'' else savedChain saved)\<rparr> \<and>
              localStorage w' = localStorage w
         else ui w' = ui w \<and>
              localStorage w' = localStorage (snd (clearSession E w)) \<and>
              ((\<forall>m k. storage_throws E m (RemoveItem k) = None) \<longrightarrow>
                 localStorage w' KEYS_account = None \<and> localStorage w' KEYS_chain = None)))"
proof -
  obtain w1 where L: "loadSession E w = (Inr saved, w1)"
    using assms(1) by (cases "loadSession E w") auto
  have F: "ui w1 = ui w" "calls w1 = calls w" "localStorage w1 = localStorage w"
    using loadSession_frame [of E w] L by simp_all
  note U = autoReconnect_unfold [OF L]
  have c1: "calls w' = calls w \<or> calls w' = calls w @ [Eth_accounts]"
    by (simp add: assms(2) U F clearSession_frame split: option.splits sum.splits)
  have c2: "fst (autoReconnect E w) = Inr () \<and> ui w' = ui w \<and> calls w' = calls w \<and>
       localStorage w' = localStorage w"
    if "savedAccount saved = '''' \<or> ethereum E = None"
    using that by (auto simp: assms(2) U F split: option.splits)
  have c3: "fst (autoReconnect E w) = Inr () \<and>
        calls w' = calls w @ [Eth_accounts] \<and>
        (if savedAccount saved \<in> set accounts
         then ui w' = (ui w)\<lparr>web3 := True, account := savedAccount saved,
                 chainId := savedChain saved,
                 selectedChain := (if savedChain saved = '''' then ''0x1'' else savedChain saved)\<rparr> \<and>
              localStorage w' = localStorage w
         else ui w' = ui w \<and>
              localStorage w' = localStorage (snd (clearSession E w)) \<and>
              ((\<forall>m k. storage_throws E m (RemoveItem k) = None) \<longrightarrow>
                 localStorage w' KEYS_account = None \<and> localStorage w' KEYS_chain = None))"
    if "ethereum E = Some P" "savedAccount saved \<noteq> ''''" "eth_accounts P (calls w) = Inr accounts"
    using that
    by (simp add: assms(2) U F clearSession_frame clearSession_returns clearSession_localStorage
          KEYS_account_def KEYS_chain_def split: option.splits)
  show ?thesis using c1 c2 c3 by blast
qed

theorem autoReconnect_revalidates_witness:
  "fst (loadSession sample_env returning_world)
     = Inr \<lparr>savedAccount = ''0xCD'', savedChain = ''0xaa36a7''\<rparr> \<and>
   ethereum sample_env = Some granting_provider \<and>
   eth_accounts granting_provider (calls returning_world) = Inr [''0xAB'', ''0xCD''] \<and>
   calls (snd (autoReconnect sample_env returning_world)) = [Eth_accounts] \<and>
   ui (snd (autoReconnect sample_env returning_world)) = initial_state\<lparr>web3 := True,
       account := ''0xCD'', chainId := ''0xaa36a7'', selectedChain := ''0xaa36a7''\<rparr> \<and>
   localStorage (snd (autoReconnect sample_env returning_world)) = localStorage returning_world"
proof -
  have h1: "fst (loadSession sample_env returning_world)
     = Inr \<lparr>savedAccount = ''0xCD'', savedChain = ''0xaa36a7''\<rparr>"
    by (simp add: js_defs storage_defs returning_world_def sample_defs)
  have h2: "ethereum sample_env = Some granting_provider"
    by (simp add: sample_defs)
  have h3: "eth_accounts granting_provider (calls returning_world) = Inr [''0xAB'', ''0xCD'']"
    by (simp add: sample_defs)
  show ?thesis
    using autoReconnect_revalidates [OF h1 refl, of granting_provider "[''0xAB'', ''0xCD'']"]
      h1 h2 h3
    by (simp add: returning_world_def sample_defs)
qed

subsection \<open>Switching the network\<close>

lemma switchOrAddChain_run:
  "switchOrAddChain P h w =
     (case wallet_switchEthereumChain P (calls w) h of
        Inr u \<Rightarrow> (Inr (), w\<lparr>calls := calls w @ [Wallet_switchEthereumChain h]\<rparr>)
      | Inl err \<Rightarrow>
         (case CHAIN_PARAMS_at h of
            None \<Rightarrow> (Inl err, w\<lparr>calls := calls w @ [Wallet_switchEthereumChain h]\<rparr>)
          | Some v \<Rightarrow>
              if code err \<noteq> Some 4902
              then (Inl err, w\<lparr>calls := calls w @ [Wallet_switchEthereumChain h]\<rparr>)
              else (case wallet_addEthereumChain P (calls w @ [Wallet_switchEthereumChain h]) v of
                      Inl err2 \<Rightarrow>
                        (Inl err2, w\<lparr>calls := calls w @
                           [Wallet_switchEthereumChain h, Wallet_addEthereumChain v]\<rparr>)
                    | Inr u \<Rightarrow>
                        (wallet_switchEthereumChain P
                           (calls w @ [Wallet_switchEthereumChain h, Wallet_addEthereumChain v]) h,
                         w\<lparr>calls := calls w @
                           [Wallet_switchEthereumChain h, Wallet_addEthereumChain v,
                            Wallet_switchEthereumChain h]\<rparr>))))"
  by (simp add: switchOrAddChain_def request_switch_def request_add_def js_defs
        split: sum.splits option.splits)

lemma switchOrAddChain_frame:
  "ui (snd (switchOrAddChain P h w)) = ui w \<and>
   localStorage (snd (switchOrAddChain P h w)) = localStorage w \<and>
   console (snd (switchOrAddChain P h w)) = console w"
  by (simp add: switchOrAddChain_run split: sum.splits option.splits)

lemma switchOrAddChain_ui_independent:
  "fst (switchOrAddChain P h (w\<lparr>ui := u\<rparr>)) = fst (switchOrAddChain P h w) \<and>
   calls (snd (switchOrAddChain P h (w\<lparr>ui := u\<rparr>))) = calls (snd (switchOrAddChain P h w))"
  by (simp add: switchOrAddChain_run split: sum.splits option.splits)

lemma CHAIN_PARAMS_at_own:
  "h \<notin> set Object_prototype_names \<Longrightarrow>
     CHAIN_PARAMS_at h = (case CHAIN_PARAMS h of None \<Rightarrow> None | Some d \<Rightarrow> Some (Descriptor d))"
  by (simp add: CHAIN_PARAMS_at_def split: option.splits)

text \<open>
  The lookup follows the code on a target that is no chain id but a name every object
  inherits: the registry has no descriptor for it, and the add request and the second
  switch request are issued all the same.
\<close>

lemma switchOrAddChain_inherited_name:
  "CHAIN_PARAMS ''toString'' = None \<and>
   calls (snd (switchOrAddChain learning_provider ''toString'' fresh_world))
     = [Wallet_switchEthereumChain ''toString'', Wallet_addEthereumChain (Inherited ''toString''),
        Wallet_switchEthereumChain ''toString'']"
  by (simp add: switchOrAddChain_run learning_provider_def CHAIN_PARAMS_at_def CHAIN_PARAMS_def
        Object_prototype_names_def sample_defs)

text \<open>
  C2, as the code has it, for a target that is not one of the property names inherited
  from \<open>Object.prototype\<close> (no hexadecimal chain id is). \<open>switchOrAddChain\<close> issues the
  switch request once. If it succeeds, that is all. If it fails, then exactly when the
  error code is 4902 and the registry has a descriptor for the target, one add request
  for that descriptor follows; only if the add request succeeds is the switch request
  issued once more, and its answer is the result. Every other error, a failed add and a
  failed second switch are thrown to the caller as the provider's own error. No other
  request is made: the calls are the switch alone, or switch and add, or switch, add and
  switch.
\<close>

theorem switchOrAddChain_sequence:
  assumes "h \<notin> set Object_prototype_names"
  shows "switchOrAddChain P h w =
     (case wallet_switchEthereumChain P (calls w) h of
        Inr u \<Rightarrow> (Inr (), w\<lparr>calls := calls w @ [Wallet_switchEthereumChain h]\<rparr>)
      | Inl err \<Rightarrow>
         (case CHAIN_PARAMS h of
            None \<Rightarrow> (Inl err, w\<lparr>calls := calls w @ [Wallet_switchEthereumChain h]\<rparr>)
          | Some d \<Rightarrow>
              if code err \<noteq> Some 4902
              then (Inl err, w\<lparr>calls := calls w @ [Wallet_switchEthereumChain h]\<rparr>)
              else (case wallet_addEthereumChain P (calls w @ [Wallet_switchEthereumChain h])
                           (Descriptor d) of
                      Inl err2 \<Rightarrow>
                        (Inl err2, w\<lparr>calls := calls w @
                           [Wallet_switchEthereumChain h, Wallet_addEthereumChain (Descriptor d)]\<rparr>)
                    | Inr u \<Rightarrow>
                        (wallet_switchEthereumChain P
                           (calls w @ [Wallet_switchEthereumChain h,
                                       Wallet_addEthereumChain (Descriptor d)]) h,
                         w\<lparr>calls := calls w @
                           [Wallet_switchEthereumChain h, Wallet_addEthereumChain (Descriptor d),
                            Wallet_switchEthereumChain h]\<rparr>)))) \<and>
   (calls (snd (switchOrAddChain P h w)) = calls w @ [Wallet_switchEthereumChain h] \<or>
    (\<exists>d. CHAIN_PARAMS h = Some d \<and>
       (calls (snd (switchOrAddChain P h w))
          = calls w @ [Wallet_switchEthereumChain h, Wallet_addEthereumChain (Descriptor d)] \<or>
        calls (snd (switchOrAddChain P h w))
          = calls w @ [Wallet_switchEthereumChain h, Wallet_addEthereumChain (Descriptor d),
                       Wallet_switchEthereumChain h])))"
  by (simp add: switchOrAddChain_run CHAIN_PARAMS_at_own [OF assms]
        split: sum.splits option.splits)

theorem switchOrAddChain_sequence_witness:
  "''0xaa36a7'' \<notin> set Object_prototype_names \<and>
   switchOrAddChain learning_provider ''0xaa36a7'' fresh_world =
     (Inr (), fresh_world\<lparr>calls := [Wallet_switchEthereumChain ''0xaa36a7'',
        Wallet_addEthereumChain (Descriptor sepolia), Wallet_switchEthereumChain ''0xaa36a7'']\<rparr>)"
proof -
  have h: "''0xaa36a7'' \<notin> set Object_prototype_names"
    by (simp add: Object_prototype_names_def)
  show ?thesis
    using switchOrAddChain_sequence [OF h, of learning_provider fresh_world] h
    by (simp add: learning_provider_def CHAIN_PARAMS_def sample_defs)
qed

text \<open>
  C2 as stated fails: the first switch fails with code 4902 and the registry has the
  target, yet no second switch request follows the add request, because the add request
  was declined.
\<close>

theorem switchOrAddChain_no_retry_counterexample:
  "code unrecognized = Some 4902 \<and> CHAIN_PARAMS ''0x1'' = Some mainnet \<and>
   wallet_switchEthereumChain add_rejecting_provider (calls fresh_world) ''0x1''
     = Inl unrecognized \<and>
   calls (snd (switchOrAddChain add_rejecting_provider ''0x1'' fresh_world))
     = [Wallet_switchEthereumChain ''0x1'', Wallet_addEthereumChain (Descriptor mainnet)] \<and>
   fst (switchOrAddChain add_rejecting_provider ''0x1'' fresh_world) = Inl denied"
  by (simp add: switchOrAddChain_run add_rejecting_provider_def CHAIN_PARAMS_at_def
        CHAIN_PARAMS_def sample_defs)

text \<open>
  C4, as the code has it. With a provider present \<open>handleChangeNetwork\<close> always returns,
  and it changes neither the account, the chain id nor the store. When the add-or-switch
  sequence succeeds it sets the selected chain to the target and the status to
  "Switched to" and the chain's name; when the sequence throws it sets only the status,
  to the error's message, or to "Failed to switch network" when there is none.
\<close>

theorem handleChangeNetwork_outcome:
  assumes "ethereum E = Some P"
    and "w' = snd (handleChangeNetwork E hexId w)"
  shows "fst (handleChangeNetwork E hexId w) = Inr () \<and>
    localStorage w' = localStorage w \<and>
    account (ui w') = account (ui w) \<and>
    chainId (ui w') = chainId (ui w) \<and>
    calls w' = calls (snd (switchOrAddChain P hexId w)) \<and>
    (fst (switchOrAddChain P hexId w) = Inr () \<longrightarrow>
       ui w' = (ui w)\<lparr>selectedChain := hexId,
                 status := ''Switched to '' @ getChainName hexId\<rparr>) \<and>
    (fst (switchOrAddChain P hexId w) = Inl err \<longrightarrow>
       ui w' = (ui w)\<lparr>status := message_or err ''Failed to switch network''\<rparr>)"
proof -
  let ?w0 = "w\<lparr>ui := (ui w)\<lparr>status := ''Switching network'' @ ellipsis\<rparr>\<rparr>"
  obtain r w1 where S: "switchOrAddChain P hexId ?w0 = (r, w1)"
    by (cases "switchOrAddChain P hexId ?w0") auto
  have F: "ui w1 = ui ?w0" "localStorage w1 = localStorage w"
    using switchOrAddChain_frame [of P hexId ?w0] S by simp_all
  have I: "fst (switchOrAddChain P hexId w) = r"
    "calls (snd (switchOrAddChain P hexId w)) = calls w1"
    using switchOrAddChain_ui_independent
            [where P = P and h = hexId and w = w
               and u = "(ui w)\<lparr>status := ''Switching network'' @ ellipsis\<rparr>"] S
    by simp_all
  have H: "handleChangeNetwork E hexId w =
     (case r of
        Inr u \<Rightarrow> (Inr (), w1\<lparr>ui := (ui w1)\<lparr>selectedChain := hexId,
                     status := ''Switched to '' @ getChainName hexId\<rparr>\<rparr>)
      | Inl e \<Rightarrow> (Inr (), w1\<lparr>ui := (ui w1)\<lparr>status := message_or e ''Failed to switch network''\<rparr>\<rparr>))"
    using assms(1) S
    by (simp add: handleChangeNetwork_def js_defs setter_defs split: sum.splits)
  show ?thesis
    by (cases r) (simp_all add: assms(2) H F I)
qed

theorem handleChangeNetwork_outcome_witness:
  "ethereum sample_env = Some granting_provider \<and>
   fst (switchOrAddChain granting_provider ''0xaa36a7'' connected_world) = Inr () \<and>
   ui (snd (handleChangeNetwork sample_env ''0xaa36a7'' connected_world))
     = (ui connected_world)\<lparr>selectedChain := ''0xaa36a7'',
          status := ''Switched to Sepolia Testnet''\<rparr> \<and>
   localStorage (snd (handleChangeNetwork sample_env ''0xaa36a7'' connected_world))
     = localStorage connected_world"
proof -
  have h1: "ethereum sample_env = Some granting_provider"
    by (simp add: sample_defs)
  have h2: "fst (switchOrAddChain granting_provider ''0xaa36a7'' connected_world) = Inr ()"
    by (simp add: switchOrAddChain_run sample_defs)
  show ?thesis
    using handleChangeNetwork_outcome [OF h1 refl, of "''0xaa36a7''" connected_world] h1 h2
    by (simp add: getChainName_def CHAIN_PARAMS_at_def CHAIN_PARAMS_def sepolia_def)
qed

text \<open>
  C4 as stated fails: the sequence succeeds, and the stored chain id and the state's chain
  id are still those of the chain that was left.
\<close>

theorem handleChangeNetwork_not_persisted_counterexample:
  "fst (switchOrAddChain granting_provider ''0xaa36a7'' connected_world) = Inr () \<and>
   status (ui (snd (handleChangeNetwork sample_env ''0xaa36a7'' connected_world)))
     = ''Switched to Sepolia Testnet'' \<and>
   localStorage (snd (handleChangeNetwork sample_env ''0xaa36a7'' connected_world)) KEYS_chain
     = Some ''0x1'' \<and>
   chainId (ui (snd (handleChangeNetwork sample_env ''0xaa36a7'' connected_world))) = ''0x1''"
  by (simp add: handleChangeNetwork_def switchOrAddChain_run js_defs setter_defs
        getChainName_def CHAIN_PARAMS_at_def CHAIN_PARAMS_def sepolia_def connected_world_def
        sample_defs)

subsection \<open>Balance\<close>

lemmas float_defs = double_of_frac_def round_magnitude_def binade_def rdiv_def bitlen.simps
  Let_def times_1e6_def div_1e6_def Math_floor_def parseFloat_def fromWei_def

lemma refreshBalance_run:
  assumes "web3 (ui w)" and "account (ui w) \<noteq> ''''"
    and "getBalance E (calls w) (account (ui w)) = Inr wei"
  shows "refreshBalance E w =
     (Inr (), w\<lparr>calls := calls w @ [GetBalance (account (ui w))],
        ui := (ui w)\<lparr>balanceEth :=
          Num (div_1e6 (Math_floor (times_1e6 (parseFloat (fromWei wei)))))\<rparr>\<rparr>)"
  using assms by (simp add: refreshBalance_def js_defs setter_defs)

lemma refreshBalance_result:
  "refreshBalance E w = (r, w') \<Longrightarrow>
     r = Inr () \<and> to (ui w') = to (ui w) \<and> amountEth (ui w') = amountEth (ui w)"
  by (auto simp: refreshBalance_def js_defs setter_defs split: sum.splits if_splits)

lemma literal_1_234567: "double_of_frac 1234567 1000000 = Finite 5559995481163911 (- 52)"
  by (simp add: float_defs)

lemma literal_1_234568: "double_of_frac 1234568 1000000 = Finite 5559999984763539 (- 52)"
  by (simp add: float_defs)

lemma parse_example: "parseFloat (fromWei 1234567999999999999) = Finite 5559999984763539 (- 52)"
  by (simp add: float_defs)

lemma scaled_example: "times_1e6 (Finite 5559999984763539 (- 52)) = Finite 5302429184688128 (- 32)"
  by (simp add: float_defs)

lemma floored_example: "Math_floor (Finite 5302429184688128 (- 32)) = Finite 5302429184688128 (- 32)"
  by (simp add: float_defs)

lemma shown_example: "div_1e6 (Finite 5302429184688128 (- 32)) = Finite 5559999984763539 (- 52)"
  by (simp add: float_defs)

text \<open>The first example of the specification comes out as it says: 1.234567.\<close>

lemma exact_example_shown:
  "div_1e6 (Math_floor (times_1e6 (parseFloat (fromWei 1234567000000000000))))
     = double_of_frac 1234567 1000000"
  by (simp add: float_defs)

text \<open>
  The rounding errs in the other direction too: a balance of exactly 0.000249 is shown as
  0.000248, because the double nearest to 0.000249 lies below it.
\<close>

lemma exact_example_shown_lower:
  "div_1e6 (Math_floor (times_1e6 (parseFloat (fromWei 249000000000000))))
     = double_of_frac 248 1000000"
  by (simp add: float_defs)

text \<open>
  C3, at a balance of 1234567999999999999 wei. \<open>parseFloat\<close> has already rounded
  1.234567999999999999 up to the Number 1.234568 before \<open>Math.floor\<close> is applied, so
  \<open>refreshBalance\<close> stores the Number that the literal 1.234568 denotes, not 1.234567,
  and that Number is more than the account holds.
\<close>

theorem refreshBalance_rounds_up:
  assumes "web3 (ui w)" and "account (ui w) \<noteq> ''''"
    and "getBalance E (calls w) (account (ui w)) = Inr 1234567999999999999"
  shows "balanceEth (ui (snd (refreshBalance E w))) = Num (double_of_frac 1234568 1000000) \<and>
    double_of_frac 1234568 1000000 \<noteq> double_of_frac 1234567 1000000 \<and>
    1234567999999999999 / 10 ^ 18 < value_of (double_of_frac 1234568 1000000)"
proof -
  have "balanceEth (ui (snd (refreshBalance E w))) = Num (Finite 5559999984763539 (- 52))"
    by (simp add: refreshBalance_run [OF assms] parse_example scaled_example floored_example
          shown_example)
  moreover have "(1234567999999999999 :: rat) / 10 ^ 18 < value_of (Finite 5559999984763539 (- 52))"
    by (simp add: value_of_def)
  ultimately show ?thesis
    by (simp add: literal_1_234567 literal_1_234568)
qed

theorem refreshBalance_rounds_up_witness:
  "web3 (ui connected_world) \<and> account (ui connected_world) \<noteq> '''' \<and>
   getBalance sample_env (calls connected_world) (account (ui connected_world))
     = Inr 1234567999999999999 \<and>
   balanceEth (ui (snd (refreshBalance sample_env connected_world)))
     = Num (double_of_frac 1234568 1000000)"
proof -
  have h1: "web3 (ui connected_world)"
    by (simp add: connected_world_def)
  have h2: "account (ui connected_world) \<noteq> ''''"
    by (simp add: connected_world_def)
  have h3: "getBalance sample_env (calls connected_world) (account (ui connected_world))
     = Inr 1234567999999999999"
    by (simp add: sample_defs)
  show ?thesis
    using refreshBalance_rounds_up [OF h1 h2 h3] h1 h2 h3 by simp
qed

subsection \<open>Sending\<close>

text \<open>
  C7, as the code has it. Without web3 or without an account \<open>sendEth\<close> only sets the
  status "Connect wallet first", whatever the form holds. Connected, a recipient that
  \<open>isAddress\<close> rejects makes it set the status "Invalid recipient address" and nothing
  else: no call is made, and the form and the rest of the state stay as they were.
  Connected and with an accepted recipient, an amount that is empty, not finite or not
  above zero makes it set the status "Enter a valid amount" and nothing else. The form
  fields change only when the amount was converted and the transaction was submitted
  successfully, and then both are emptied.
\<close>

theorem sendEth_validation:
  "(\<not> web3 (ui w) \<or> account (ui w) = '''' \<longrightarrow>
      sendEth E w = (Inr (), w\<lparr>ui := (ui w)\<lparr>status := ''Connect wallet first''\<rparr>\<rparr>)) \<and>
   (web3 (ui w) \<and> account (ui w) \<noteq> '''' \<and> \<not> isAddress E (to (ui w)) \<longrightarrow>
      sendEth E w = (Inr (), w\<lparr>ui := (ui w)\<lparr>status := ''Invalid recipient address''\<rparr>\<rparr>)) \<and>
   (web3 (ui w) \<and> account (ui w) \<noteq> '''' \<and> isAddress E (to (ui w)) \<and>
    amount_invalid E (amountEth (ui w)) \<longrightarrow>
      sendEth E w = (Inr (), w\<lparr>ui := (ui w)\<lparr>status := ''Enter a valid amount''\<rparr>\<rparr>)) \<and>
   (to (ui (snd (sendEth E w))) \<noteq> to (ui w) \<or>
    amountEth (ui (snd (sendEth E w))) \<noteq> amountEth (ui w) \<longrightarrow>
      (\<exists>v hash. toWei E (amountEth (ui w)) = Inr v \<and>
         sendTransaction E (calls w)
           \<lparr>tx_from = account (ui w), tx_to = to (ui w), tx_value = v\<rparr> = Inr hash) \<and>
      to (ui (snd (sendEth E w))) = '''' \<and> amountEth (ui (snd (sendEth E w))) = '''')"
proof (intro conjI)
  show "\<not> web3 (ui w) \<or> account (ui w) = '''' \<longrightarrow>
      sendEth E w = (Inr (), w\<lparr>ui := (ui w)\<lparr>status := ''Connect wallet first''\<rparr>\<rparr>)"
    by (auto simp: sendEth_def js_defs setter_defs)
  show "web3 (ui w) \<and> account (ui w) \<noteq> '''' \<and> \<not> isAddress E (to (ui w)) \<longrightarrow>
      sendEth E w = (Inr (), w\<lparr>ui := (ui w)\<lparr>status := ''Invalid recipient address''\<rparr>\<rparr>)"
    by (simp add: sendEth_def js_defs setter_defs Error_def message_or_def)
  show "web3 (ui w) \<and> account (ui w) \<noteq> '''' \<and> isAddress E (to (ui w)) \<and>
    amount_invalid E (amountEth (ui w)) \<longrightarrow>
      sendEth E w = (Inr (), w\<lparr>ui := (ui w)\<lparr>status := ''Enter a valid amount''\<rparr>\<rparr>)"
    by (simp add: sendEth_def js_defs setter_defs Error_def message_or_def)
  show "to (ui (snd (sendEth E w))) \<noteq> to (ui w) \<or>
    amountEth (ui (snd (sendEth E w))) \<noteq> amountEth (ui w) \<longrightarrow>
      (\<exists>v hash. toWei E (amountEth (ui w)) = Inr v \<and>
         sendTransaction E (calls w)
           \<lparr>tx_from = account (ui w), tx_to = to (ui w), tx_value = v\<rparr> = Inr hash) \<and>
      to (ui (snd (sendEth E w))) = '''' \<and> amountEth (ui (snd (sendEth E w))) = ''''"
    by (auto simp: sendEth_def js_defs setter_defs split: sum.splits prod.splits
          dest!: refreshBalance_result)
qed

theorem sendEth_validation_witness:
  "web3 (ui (form_world ''not-an-address'' ''0.5'')) \<and>
   account (ui (form_world ''not-an-address'' ''0.5'')) \<noteq> '''' \<and>
   \<not> isAddress sample_env (to (ui (form_world ''not-an-address'' ''0.5''))) \<and>
   sendEth sample_env (form_world ''not-an-address'' ''0.5'')
     = (Inr (), (form_world ''not-an-address'' ''0.5'')
          \<lparr>ui := (ui (form_world ''not-an-address'' ''0.5''))
             \<lparr>status := ''Invalid recipient address''\<rparr>\<rparr>) \<and>
   isAddress sample_env (to (ui (form_world ''0xCD'' ''abc''))) \<and>
   amount_invalid sample_env (amountEth (ui (form_world ''0xCD'' ''abc''))) \<and>
   status (ui (snd (sendEth sample_env (form_world ''0xCD'' ''abc'')))) = ''Enter a valid amount'' \<and>
   to (ui (snd (sendEth sample_env (form_world ''0xCD'' ''abc'')))) = ''0xCD'' \<and>
   to (ui (snd (sendEth sample_env (form_world ''0xCD'' ''0.5'')))) = '''' \<and>
   to (ui (form_world ''0xCD'' ''0.5'')) = ''0xCD''"
proof -
  have cleared: "to (ui (snd (sendEth sample_env (form_world ''0xCD'' ''0.5'')))) = ''''"
    by (simp add: sendEth_def refreshBalance_def js_defs setter_defs amount_invalid_def
          isFinite_def le_zero_def form_world_def connected_world_def sample_defs)
  show ?thesis
    using sendEth_validation [of "form_world ''not-an-address'' ''0.5''" sample_env]
      sendEth_validation [of "form_world ''0xCD'' ''abc''" sample_env]
      sendEth_validation [of "form_world ''0xCD'' ''0.5''" sample_env] cleared
    by (simp add: amount_invalid_def isFinite_def le_zero_def form_world_def
          connected_world_def sample_defs)
qed

text \<open>
  C7 as stated fails: the recipient is not an address, and \<open>sendEth\<close> reports that the
  wallet is not connected, not that the address is invalid. And on the connected page an
  amount that is not a number is not reported as such when the recipient is not an
  address either: the address is checked first.
\<close>

theorem sendEth_not_connected_counterexample:
  "\<not> isAddress sample_env (to (ui unconnected_world)) \<and>
   account (ui unconnected_world) = ''0xCD'' \<and>
   status (ui (snd (sendEth sample_env unconnected_world))) = ''Connect wallet first'' \<and>
   amount_invalid sample_env (amountEth (ui (form_world ''not-an-address'' ''abc''))) \<and>
   status (ui (snd (sendEth sample_env (form_world ''not-an-address'' ''abc''))))
     = ''Invalid recipient address''"
  by (simp add: sendEth_def onAccountsChanged_def first_or_empty_def unconnected_world_def
        form_world_def connected_world_def amount_invalid_def isFinite_def message_or_def
        js_defs storage_defs setter_defs sample_defs)

subsection \<open>The status timer\<close>

lemma commit_keeps_timer:
  assumes "timer T = Some due" and "now < due"
    and "status (f (wallet T)) = status (wallet T)"
  shows "commit_at now f T = T\<lparr>wallet := f (wallet T)\<rparr>"
  using assms by (simp add: commit_at_def advance_def status_effect_def Let_def)

lemma commits_keep_timer:
  assumes "timer T = Some due" and "status (wallet T) = m"
    and "\<forall>c \<in> set cs. fst c < due \<and> (\<forall>s. status (snd c s) = status s)"
  shows "timer (commits cs T) = Some due \<and> status (wallet (commits cs T)) = m"
  using assms
proof (induction cs arbitrary: T)
  case Nil
  then show ?case by simp
next
  case (Cons c cs)
  have step: "commit_at (fst c) (snd c) T = T\<lparr>wallet := snd c (wallet T)\<rparr>"
    using Cons.prems by (intro commit_keeps_timer) auto
  have "timer (commits cs (T\<lparr>wallet := snd c (wallet T)\<rparr>)) = Some due \<and>
        status (wallet (commits cs (T\<lparr>wallet := snd c (wallet T)\<rparr>))) = m"
    using Cons.prems by (intro Cons.IH) auto
  then show ?case by (simp add: step)
qed

lemma expiry_clears_status_only:
  assumes "timer T = Some due" and "status (wallet T) \<noteq> ''''"
  shows "advance due T = T\<lparr>wallet := (wallet T)\<lparr>status := ''''\<rparr>, timer := None\<rparr>"
  using assms by (simp add: advance_def status_effect_def)

text \<open>
  C8, as the code has it. A non-empty status that differs from the one shown, set at time
  \<open>t\<close>, is shown until \<open>t + 7000\<close> and cleared then, with nothing else in the state
  changed; updates of other state cells committed in between, however many, neither
  restart nor cancel the timeout. A second non-empty status with a different text, set
  at \<open>t + 3000\<close>, restarts the timeout: it is shown at \<open>t + 7000\<close> and until
  \<open>t + 10000\<close>, when it is cleared, again whatever else is committed in between.
  Setting the same text again at \<open>t + 3000\<close> changes nothing, the timeout included.
\<close>

theorem status_timer:
  assumes "msg \<noteq> ''''" and "status (wallet (advance t T)) \<noteq> msg"
    and "T1 = setStatus_at t msg T"
  shows "status (wallet T1) = msg \<and> timer T1 = Some (t + 7000) \<and>
    (t' < t + 7000 \<longrightarrow> advance t' T1 = T1) \<and>
    advance (t + 7000) T1 = T1\<lparr>wallet := (wallet T1)\<lparr>status := ''''\<rparr>, timer := None\<rparr> \<and>
    (msg2 \<noteq> '''' \<and> msg2 \<noteq> msg \<longrightarrow>
       status (wallet (advance (t + 7000) (setStatus_at (t + 3000) msg2 T1))) = msg2 \<and>
       (t' < t + 10000 \<longrightarrow>
          status (wallet (advance t' (setStatus_at (t + 3000) msg2 T1))) = msg2) \<and>
       status (wallet (advance (t + 10000) (setStatus_at (t + 3000) msg2 T1))) = '''') \<and>
    setStatus_at (t + 3000) msg T1 = T1 \<and>
    ((\<forall>c \<in> set cs. fst c < t + 7000 \<and> (\<forall>s. status (snd c s) = status s)) \<longrightarrow>
       status (wallet (commits cs T1)) = msg \<and>
       timer (commits cs T1) = Some (t + 7000) \<and>
       (t' < t + 7000 \<longrightarrow> advance t' (commits cs T1) = commits cs T1) \<and>
       advance (t + 7000) (commits cs T1)
         = (commits cs T1)\<lparr>wallet := (wallet (commits cs T1))\<lparr>status := ''''\<rparr>,
                            timer := None\<rparr>) \<and>
    (msg2 \<noteq> '''' \<and> msg2 \<noteq> msg \<and>
     (\<forall>c \<in> set cs. fst c < t + 10000 \<and> (\<forall>s. status (snd c s) = status s)) \<longrightarrow>
       status (wallet (commits cs (setStatus_at (t + 3000) msg2 T1))) = msg2 \<and>
       status (wallet (advance (t + 7000) (commits cs (setStatus_at (t + 3000) msg2 T1))))
         = msg2 \<and>
       advance (t + 10000) (commits cs (setStatus_at (t + 3000) msg2 T1))
         = (commits cs (setStatus_at (t + 3000) msg2 T1))
             \<lparr>wallet := (wallet (commits cs (setStatus_at (t + 3000) msg2 T1)))
                          \<lparr>status := ''''\<rparr>,
               timer := None\<rparr>)"
proof -
  have a: "status (wallet T1) = msg" "timer T1 = Some (t + 7000)"
    using assms by (simp_all add: setStatus_at_def commit_at_def status_effect_def Let_def)
  have b: "advance t'' T1 = T1" if "t'' < t + 7000" for t''
    using that a by (simp add: advance_def)
  have c: "advance (t + 7000) T1 = T1\<lparr>wallet := (wallet T1)\<lparr>status := ''''\<rparr>, timer := None\<rparr>"
    using a assms(1) by (simp add: expiry_clears_status_only)
  have d: "setStatus_at (t + 3000) msg T1 = T1"
    using a b [of "t + 3000"]
    by (simp add: setStatus_at_def commit_at_def status_effect_def Let_def)
  have e: "status (wallet (setStatus_at (t + 3000) msg2 T1)) = msg2 \<and>
     timer (setStatus_at (t + 3000) msg2 T1) = Some (t + 10000)"
    if "msg2 \<noteq> ''''" "msg2 \<noteq> msg"
    using that a b [of "t + 3000"]
    by (simp add: setStatus_at_def commit_at_def status_effect_def Let_def)
  have f: "status (wallet (advance t'' (setStatus_at (t + 3000) msg2 T1))) = msg2"
    if "msg2 \<noteq> ''''" "msg2 \<noteq> msg" "t'' < t + 10000" for t''
    using that e by (simp add: advance_def)
  have g: "status (wallet (advance (t + 10000) (setStatus_at (t + 3000) msg2 T1))) = ''''"
    if "msg2 \<noteq> ''''" "msg2 \<noteq> msg"
    using that e by (simp add: advance_def status_effect_def)
  have h: "status (wallet (commits cs T1)) = msg \<and>
       timer (commits cs T1) = Some (t + 7000) \<and>
       (t' < t + 7000 \<longrightarrow> advance t' (commits cs T1) = commits cs T1) \<and>
       advance (t + 7000) (commits cs T1)
         = (commits cs T1)\<lparr>wallet := (wallet (commits cs T1))\<lparr>status := ''''\<rparr>,
                            timer := None\<rparr>"
    if quiet: "\<forall>c \<in> set cs. fst c < t + 7000 \<and> (\<forall>s. status (snd c s) = status s)"
  proof -
    have k: "timer (commits cs T1) = Some (t + 7000) \<and> status (wallet (commits cs T1)) = msg"
      using a quiet by (intro commits_keep_timer) auto
    then have "advance (t + 7000) (commits cs T1)
         = (commits cs T1)\<lparr>wallet := (wallet (commits cs T1))\<lparr>status := ''''\<rparr>,
                            timer := None\<rparr>"
      using assms(1) by (intro expiry_clears_status_only) auto
    moreover have "t' < t + 7000 \<longrightarrow> advance t' (commits cs T1) = commits cs T1"
      using k by (simp add: advance_def)
    ultimately show ?thesis using k by simp
  qed
  have i: "status (wallet (commits cs (setStatus_at (t + 3000) msg2 T1))) = msg2 \<and>
       status (wallet (advance (t + 7000) (commits cs (setStatus_at (t + 3000) msg2 T1))))
         = msg2 \<and>
       advance (t + 10000) (commits cs (setStatus_at (t + 3000) msg2 T1))
         = (commits cs (setStatus_at (t + 3000) msg2 T1))
             \<lparr>wallet := (wallet (commits cs (setStatus_at (t + 3000) msg2 T1)))
                          \<lparr>status := ''''\<rparr>,
               timer := None\<rparr>"
    if new: "msg2 \<noteq> ''''" "msg2 \<noteq> msg"
      and quiet: "\<forall>c \<in> set cs. fst c < t + 10000 \<and> (\<forall>s. status (snd c s) = status s)"
  proof -
    let ?T2 = "setStatus_at (t + 3000) msg2 T1"
    have k: "timer (commits cs ?T2) = Some (t + 10000) \<and> status (wallet (commits cs ?T2)) = msg2"
      using e [OF new] quiet by (intro commits_keep_timer) auto
    then have "advance (t + 10000) (commits cs ?T2)
         = (commits cs ?T2)\<lparr>wallet := (wallet (commits cs ?T2))\<lparr>status := ''''\<rparr>,
                             timer := None\<rparr>"
      using new(1) by (intro expiry_clears_status_only) auto
    moreover have "status (wallet (advance (t + 7000) (commits cs ?T2))) = msg2"
      using k by (simp add: advance_def)
    ultimately show ?thesis using k by simp
  qed
  show ?thesis
    using a b [of t'] c d f [of "t + 7000"] f [of t'] g h i by simp
qed

theorem status_timer_witness:
  "''Connected'' \<noteq> '''' \<and> status (wallet (advance 0 idle)) \<noteq> ''Connected'' \<and>
   ''Network changed'' \<noteq> ''Connected'' \<and>
   status (wallet (advance 6999 (setStatus_at 0 ''Connected'' idle))) = ''Connected'' \<and>
   status (wallet (advance 7000 (setStatus_at 0 ''Connected'' idle))) = '''' \<and>
   status (wallet (advance 7000
      (setStatus_at 3000 ''Network changed'' (setStatus_at 0 ''Connected'' idle))))
     = ''Network changed'' \<and>
   status (wallet (advance 10000
      (setStatus_at 3000 ''Network changed'' (setStatus_at 0 ''Connected'' idle)))) = '''' \<and>
   status (wallet (advance 6999
      (commits [(1000, to_update (\<lambda>_. ''0xCD'')), (5000, amountEth_update (\<lambda>_. ''0.5''))]
         (setStatus_at 0 ''Connected'' idle)))) = ''Connected'' \<and>
   status (wallet (advance 7000
      (commits [(1000, to_update (\<lambda>_. ''0xCD'')), (5000, amountEth_update (\<lambda>_. ''0.5''))]
         (setStatus_at 0 ''Connected'' idle)))) = ''''"
proof -
  have h1: "''Connected'' \<noteq> ''''" by simp
  have h2: "status (wallet (advance 0 idle)) \<noteq> ''Connected''"
    by (simp add: advance_def idle_def initial_state_def)
  have h3: "\<forall>c \<in> set [(1000, to_update (\<lambda>_. ''0xCD'')), (5000, amountEth_update (\<lambda>_. ''0.5''))].
       fst c < (0::nat) + 7000 \<and> (\<forall>s :: wallet_state. status (snd c s) = status s)"
    by simp
  show ?thesis
    using status_timer [OF h1 h2 refl, of 6999 "''Network changed''"
        "[(1000, to_update (\<lambda>_. ''0xCD'')), (5000, amountEth_update (\<lambda>_. ''0.5''))]"] h2 h3
    by simp
qed

text \<open>
  C8 as stated fails: a status set a second time with the same text, 3000 ms after the
  first, does not restart the timeout, and the message is gone 7000 ms after the first.
\<close>

theorem status_timer_same_text_counterexample:
  "status (wallet (setStatus_at 3000 ''Connected'' (setStatus_at 0 ''Connected'' idle)))
     = ''Connected'' \<and>
   status (wallet (advance 7000
      (setStatus_at 3000 ''Connected'' (setStatus_at 0 ''Connected'' idle)))) = ''''"
  by (simp add: setStatus_at_def commit_at_def status_effect_def advance_def Let_def
        idle_def initial_state_def)

end
